theory Spec2Isabelle
  imports Main
begin

section \<open>The xrealmauthz KDC policy plugin\<close>

text \<open>
  A shallow embedding of \<^verbatim>\<open>src/plugins/kdcpolicy/xrealmauthz/main.c\<close>.
  Conventions:
  \<^item> a counted byte buffer (\<^verbatim>\<open>krb5_data\<close>: \<^verbatim>\<open>data\<close>, \<^verbatim>\<open>length\<close>) is the list of
    its \<^verbatim>\<open>length\<close> bytes, which may hold any byte, the zero byte included;
  \<^item> a NUL-terminated \<^verbatim>\<open>char *\<close> is the list of the bytes before its terminator;
  \<^item> the KDC database and the allocator are outside the plugin: the record
    \<open>kdc_host\<close> holds what they answer, and every call to them is written to a trace;
  \<^item> the \<^verbatim>\<open>static char denial_msg[]\<close> buffer is explicit state, passed in and
    returned, and \<^verbatim>\<open>*status_out\<close> is a pointer value that may point at it.
\<close>

subsection \<open>Constants\<close>

type_synonym krb5_error_code = int

text \<open>\<^verbatim>\<open>errno.h\<close> and \<^verbatim>\<open>krb5.h\<close> (error table base -1765328384, offset 12).\<close>

definition ENOMEM :: krb5_error_code where
  "ENOMEM = 12"

definition KRB5KDC_ERR_POLICY :: krb5_error_code where
  "KRB5KDC_ERR_POLICY = - 1765328372"

definition ATTR_PREFIX :: string where
  "ATTR_PREFIX = ''xr:''"

definition MAX_DENIAL_MSG_LEN :: nat where
  "MAX_DENIAL_MSG_LEN = 256"

definition NUL :: char where
  "NUL = CHR 0x00"

subsection \<open>Data\<close>

text \<open>\<^verbatim>\<open>krb5_principal_data\<close>: the realm and the name components, each a \<^verbatim>\<open>krb5_data\<close>.\<close>

record krb5_principal =
  realm :: string
  components :: "string list"

text \<open>
  \<^verbatim>\<open>krb5_ticket\<close>: \<open>server\<close> is \<^verbatim>\<open>ticket->server\<close> (the cross-realm TGT principal),
  \<open>client\<close> is \<^verbatim>\<open>ticket->enc_part2->client\<close>.
\<close>

record krb5_ticket =
  server :: krb5_principal
  client :: krb5_principal

text \<open>\<^verbatim>\<open>krb5_kdc_req\<close>: \<open>req_server\<close> is \<^verbatim>\<open>request->server\<close>, the requested service.\<close>

record krb5_kdc_req =
  req_server :: krb5_principal

text \<open>\<^verbatim>\<open>struct realm_entry\<close>: a NUL-terminated name and its precomputed length.\<close>

record realm_entry =
  entry_name :: string
  entry_length :: nat

text \<open>
  \<^verbatim>\<open>struct xrealmauthz_data\<close>. \<open>enforcing\<close> is a C \<^verbatim>\<open>int\<close>, read as a truth value
  (nonzero is true). \<open>allowed_realms\<close> is \<open>None\<close> for the NULL pointer and otherwise
  the array of \<^verbatim>\<open>num_allowed_realms\<close> entries.
\<close>

record xrealmauthz_data =
  enforcing :: int
  allowed_realms :: "realm_entry list option"

text \<open>\<^verbatim>\<open>krb5_db_entry *\<close>: an opaque handle; \<open>None\<close> is the NULL pointer.\<close>

type_synonym krb5_db_entry = nat

text \<open>
  What \<^verbatim>\<open>*status_out\<close> can point at: nothing, a string literal of the program text,
  or the static buffer \<^verbatim>\<open>denial_msg\<close>.
\<close>

datatype status = Null | Literal string | Denial_msg

text \<open>
  The host. \<open>krb5_db_get_principal\<close> and \<open>krb5_dbe_get_string\<close> return the error code
  and what they store through their output pointer. \<open>unparse_ret\<close> is the error code
  of unparsing a principal (the flag says whether the realm is left out), and
  \<open>asprintf_fails\<close> says whether allocating a formatted string fails.
\<close>

record kdc_host =
  krb5_db_get_principal :: "krb5_principal \<Rightarrow> krb5_error_code \<times> krb5_db_entry option"
  krb5_dbe_get_string :: "krb5_db_entry option \<Rightarrow> string \<Rightarrow> krb5_error_code \<times> string option"
  unparse_ret :: "krb5_principal \<Rightarrow> bool \<Rightarrow> krb5_error_code"
  asprintf_fails :: "string \<Rightarrow> bool"

text \<open>The calls that leave the plugin, in the order they are made.\<close>

datatype event =
    Db_get_principal krb5_principal
  | Dbe_get_string "krb5_db_entry option" string
  | Db_free_principal "krb5_db_entry option"
  | Unparse_name krb5_principal bool
  | Com_err string

text \<open>
  What a call of \<^verbatim>\<open>check_cross_realm_auth\<close> leaves behind: the returned code,
  \<^verbatim>\<open>*status_out\<close>, the content of the static buffer, and the trace.
\<close>

record outcome =
  ret :: krb5_error_code
  status_out :: status
  denial_msg :: string
  trace :: "event list"

subsection \<open>C library functions\<close>

text \<open>The byte a \<^verbatim>\<open>char *\<close> points at: past the bytes of the list stands the terminator.\<close>

definition byte_at :: "string \<Rightarrow> char" where
  "byte_at s = (case s of [] \<Rightarrow> NUL | c # _ \<Rightarrow> c)"

text \<open>
  \<^verbatim>\<open>strncmp\<close>: compares at most \<open>n\<close> bytes as unsigned values and stops after a
  zero byte. Only the sign of the result is specified by C.
\<close>

fun strncmp :: "string \<Rightarrow> string \<Rightarrow> nat \<Rightarrow> int" where
  "strncmp s1 s2 0 = 0"
| "strncmp s1 s2 (Suc n) =
     (if byte_at s1 \<noteq> byte_at s2
      then (if (of_char (byte_at s1) :: nat) < of_char (byte_at s2) then - 1 else 1)
      else if byte_at s1 = NUL then 0
      else strncmp (tl s1) (tl s2) n)"

text \<open>\<^verbatim>\<open>strlen\<close> of a buffer: the bytes before the first zero byte.\<close>

definition strlen :: "string \<Rightarrow> nat" where
  "strlen s = length (takeWhile (\<lambda>c. c \<noteq> NUL) s)"

text \<open>
  The conversion \<^verbatim>\<open>%.*s\<close> applied to a counted buffer: at most \<open>n\<close> bytes, and none
  from the first zero byte on. (The precision is the length cast to \<^verbatim>\<open>int\<close>; the
  lengths of a Kerberos message are far below \<open>2^31\<close>.)
\<close>

definition fmt_prec_s :: "nat \<Rightarrow> string \<Rightarrow> string" where
  "fmt_prec_s n s = takeWhile (\<lambda>c. c \<noteq> NUL) (take n s)"

text \<open>\<^verbatim>\<open>asprintf\<close>: the formatted string, or \<open>None\<close> for a negative return value.\<close>

definition asprintf :: "kdc_host \<Rightarrow> string \<Rightarrow> string option" where
  "asprintf h s = (if asprintf_fails h s then None else Some s)"

text \<open>
  \<^verbatim>\<open>snprintf\<close> into a buffer of \<open>n\<close> bytes: the first \<open>n - 1\<close> bytes of the
  formatted string, then the terminator.
\<close>

definition snprintf :: "nat \<Rightarrow> string \<Rightarrow> string" where
  "snprintf n s = take (n - 1) s"

subsection \<open>libkrb5 functions used by the plugin\<close>

text \<open>
  Modelled from the spec: \<^verbatim>\<open>krb5_realm_compare\<close> is part of libkrb5 and not in the
  plugin's file. The spec calls a hop direct when the realm of the one principal equals
  the realm of the other.
\<close>

definition krb5_realm_compare :: "krb5_principal \<Rightarrow> krb5_principal \<Rightarrow> bool" where
  "krb5_realm_compare princ1 princ2 = (realm princ1 = realm princ2)"

text \<open>
  Modelled from the spec: the name of a principal, which the spec writes \<open>name\<close>, is
  the text libkrb5 gives for its name components: the components in order, separated by
  a slash. (The quoting of special bytes by the library is not part of the spec.)
\<close>

fun join_components :: "string list \<Rightarrow> string" where
  "join_components [] = []"
| "join_components [c] = c"
| "join_components (c # cs) = c @ ''/'' @ join_components cs"

text \<open>
  Modelled from the spec: \<^verbatim>\<open>krb5_unparse_name_flags\<close> is part of libkrb5 and not in
  the plugin's file. The spec gives its result as the name of the principal, and as the
  name, an at sign and the realm when the realm is not left out. It fails with the
  code the host gives (\<^verbatim>\<open>ENOMEM\<close> in the library).
\<close>

definition krb5_unparse_name_flags ::
    "kdc_host \<Rightarrow> krb5_principal \<Rightarrow> bool \<Rightarrow> krb5_error_code + string" where
  "krb5_unparse_name_flags h princ no_realm =
     (if unparse_ret h princ no_realm \<noteq> 0 then Inl (unparse_ret h princ no_realm)
      else if no_realm then Inr (join_components (components princ))
      else Inr (join_components (components princ) @ ''@'' @ realm princ))"

text \<open>Modelled from the spec: \<^verbatim>\<open>krb5_unparse_name\<close> is the call above with no flag.\<close>

definition krb5_unparse_name :: "kdc_host \<Rightarrow> krb5_principal \<Rightarrow> krb5_error_code + string" where
  "krb5_unparse_name h princ = krb5_unparse_name_flags h princ False"

subsection \<open>The plugin\<close>

text \<open>
  Lines 109 to 112 of \<^verbatim>\<open>xrealmauthz_init\<close>: every name of the profile list becomes an
  entry with its \<^verbatim>\<open>strlen\<close>.
\<close>

definition realm_entries :: "string list \<Rightarrow> realm_entry list" where
  "realm_entries profile_realm_list =
     map (\<lambda>s. \<lparr>entry_name = s, entry_length = strlen s\<rparr>) profile_realm_list"

text \<open>The loop of \<^verbatim>\<open>is_realm_preapproved\<close> over the entries that are left.\<close>

fun preapproved_loop :: "realm_entry list \<Rightarrow> string \<Rightarrow> bool" where
  "preapproved_loop [] client_realm = False"
| "preapproved_loop (e # es) client_realm =
     (if entry_length e = length client_realm \<and>
         strncmp (entry_name e) client_realm (length client_realm) = 0
      then True
      else preapproved_loop es client_realm)"

definition is_realm_preapproved :: "xrealmauthz_data option \<Rightarrow> string \<Rightarrow> bool" where
  "is_realm_preapproved data client_realm =
     (case data of
        None \<Rightarrow> False
      | Some d \<Rightarrow>
          (case allowed_realms d of
             None \<Rightarrow> False
           | Some es \<Rightarrow> preapproved_loop es client_realm))"

text \<open>Line 223: \<^verbatim>\<open>data ? data->enforcing : TRUE\<close>.\<close>

definition enforcing_flag :: "xrealmauthz_data option \<Rightarrow> bool" where
  "enforcing_flag data = (case data of None \<Rightarrow> True | Some d \<Rightarrow> enforcing d \<noteq> 0)"

text \<open>
  \<^verbatim>\<open>check_cross_realm_tgt_attribute\<close>: the error code of the read, and whether the
  read succeeded with a value.
\<close>

definition check_cross_realm_tgt_attribute ::
    "kdc_host \<Rightarrow> string \<Rightarrow> krb5_db_entry option \<Rightarrow> krb5_error_code \<times> bool" where
  "check_cross_realm_tgt_attribute h attr_key tgt_entry =
     (case krb5_dbe_get_string h tgt_entry attr_key of
        (r, attr_value) \<Rightarrow> (r, r = 0 \<and> attr_value \<noteq> None))"

text \<open>The label \<^verbatim>\<open>cleanup\<close>: the entry is released, the rest is returned.\<close>

definition cleanup ::
    "krb5_db_entry option \<Rightarrow> krb5_error_code \<Rightarrow> status \<Rightarrow> string \<Rightarrow> event list \<Rightarrow> outcome" where
  "cleanup tgt_entry r st buf tr =
     \<lparr>ret = r, status_out = st, denial_msg = buf, trace = tr @ [Db_free_principal tgt_entry]\<rparr>"

text \<open>The two messages written to \<^verbatim>\<open>denial_msg\<close>.\<close>

definition audit_msg :: "string \<Rightarrow> string \<Rightarrow> krb5_principal \<Rightarrow> string" where
  "audit_msg client_princ_str service_princ_str tgt =
     ''xrealmauthz plugin would deny '' @ client_princ_str @ '' for '' @ service_princ_str @
     '' from '' @ fmt_prec_s (length (realm tgt)) (realm tgt)"

definition enforcing_msg :: "krb5_principal \<Rightarrow> string" where
  "enforcing_msg tgt =
     ''xrealmauthz plugin denied from '' @ fmt_prec_s (length (realm tgt)) (realm tgt)"

text \<open>
  Lines 286 to 323: no attribute was found. \<open>client_princ_str\<close> is \<open>None\<close> while the
  pointer of that name is NULL.
\<close>

definition deny_branch ::
    "kdc_host \<Rightarrow> krb5_ticket \<Rightarrow> krb5_kdc_req \<Rightarrow> bool \<Rightarrow> string option \<Rightarrow>
     krb5_db_entry option \<Rightarrow> string \<Rightarrow> event list \<Rightarrow> outcome" where
  "deny_branch h ticket request enforcing_on client_princ_str tgt_entry buf tr =
     (if \<not> enforcing_on then
        (case (case client_princ_str of
                 None \<Rightarrow>
                   (case krb5_unparse_name h (client ticket) of
                      Inl r \<Rightarrow> Inl (r, tr @ [Unparse_name (client ticket) False])
                    | Inr s \<Rightarrow> Inr (s, tr @ [Unparse_name (client ticket) False]))
               | Some s \<Rightarrow> Inr (s, tr)) of
           Inl (r, tr1) \<Rightarrow> cleanup tgt_entry r Null buf tr1
         | Inr (client_str, tr1) \<Rightarrow>
             (case krb5_unparse_name h (req_server request) of
                Inl r \<Rightarrow>
                  cleanup tgt_entry r Null buf (tr1 @ [Unparse_name (req_server request) False])
              | Inr service_princ_str \<Rightarrow>
                  cleanup tgt_entry 0 Denial_msg
                    (snprintf MAX_DENIAL_MSG_LEN
                       (audit_msg client_str service_princ_str (server ticket)))
                    (tr1 @ [Unparse_name (req_server request) False,
                            Com_err (snprintf MAX_DENIAL_MSG_LEN
                              (audit_msg client_str service_princ_str (server ticket)))])))
      else
        cleanup tgt_entry KRB5KDC_ERR_POLICY Denial_msg
          (snprintf MAX_DENIAL_MSG_LEN (enforcing_msg (server ticket))) tr)"

text \<open>
  Lines 252 to 278: the key of the principal, for a direct hop from the name without
  the realm, for a transitive hop from the fully qualified name. The result is the
  error code, or the key with \<^verbatim>\<open>client_princ_str\<close> (\<open>None\<close> while that pointer is
  NULL).
\<close>

definition build_principal_acl ::
    "kdc_host \<Rightarrow> krb5_ticket \<Rightarrow> krb5_error_code + string \<times> string option" where
  "build_principal_acl h ticket =
     (if krb5_realm_compare (server ticket) (client ticket) then
        (case krb5_unparse_name_flags h (client ticket) True of
           Inl r \<Rightarrow> Inl r
         | Inr client_princ_no_realm \<Rightarrow>
             (case asprintf h (ATTR_PREFIX @ client_princ_no_realm) of
                None \<Rightarrow> Inl ENOMEM
              | Some client_princ_acl \<Rightarrow> Inr (client_princ_acl, None)))
      else
        (case krb5_unparse_name h (client ticket) of
           Inl r \<Rightarrow> Inl r
         | Inr client_princ_str \<Rightarrow>
             (case asprintf h (ATTR_PREFIX @ client_princ_str) of
                None \<Rightarrow> Inl ENOMEM
              | Some client_princ_acl \<Rightarrow> Inr (client_princ_acl, Some client_princ_str))))"

text \<open>
  Lines 252 to 323: the key is built and looked up on the entry already fetched; the
  branch above is taken when the attribute is not there.
\<close>

definition principal_scope ::
    "kdc_host \<Rightarrow> krb5_ticket \<Rightarrow> krb5_kdc_req \<Rightarrow> bool \<Rightarrow>
     krb5_db_entry option \<Rightarrow> string \<Rightarrow> event list \<Rightarrow> outcome" where
  "principal_scope h ticket request enforcing_on tgt_entry buf tr =
     (let tr1 = tr @ [Unparse_name (client ticket)
                        (krb5_realm_compare (server ticket) (client ticket))]
      in
        (case build_principal_acl h ticket of
           Inl r \<Rightarrow> cleanup tgt_entry r Null buf tr1
         | Inr (client_princ_acl, client_princ_str) \<Rightarrow>
             (case check_cross_realm_tgt_attribute h client_princ_acl tgt_entry of
                (r, is_allowed) \<Rightarrow>
                  if r \<noteq> 0 then
                    cleanup tgt_entry r Null buf
                      (tr1 @ [Dbe_get_string tgt_entry client_princ_acl])
                  else if is_allowed then
                    cleanup tgt_entry r Null buf
                      (tr1 @ [Dbe_get_string tgt_entry client_princ_acl])
                  else
                    deny_branch h ticket request enforcing_on client_princ_str tgt_entry buf
                      (tr1 @ [Dbe_get_string tgt_entry client_princ_acl]))))"

text \<open>
  \<^verbatim>\<open>check_cross_realm_auth\<close>. \<open>buf\<close> is the content of \<^verbatim>\<open>denial_msg\<close> when the call
  starts. The pre-approved path returns at once, every other path goes through
  \<^verbatim>\<open>cleanup\<close>.
\<close>

definition check_cross_realm_auth ::
    "kdc_host \<Rightarrow> krb5_ticket \<Rightarrow> krb5_kdc_req \<Rightarrow> xrealmauthz_data option \<Rightarrow> string \<Rightarrow> outcome" where
  "check_cross_realm_auth h ticket request data buf =
     (let client_realm = realm (client ticket)
      in
        if is_realm_preapproved data client_realm then
          \<lparr>ret = 0, status_out = Null, denial_msg = buf, trace = []\<rparr>
        else
          (case asprintf h
                  (ATTR_PREFIX @ ''@'' @ fmt_prec_s (length client_realm) client_realm) of
             None \<Rightarrow> cleanup None ENOMEM Null buf []
           | Some client_realm_acl \<Rightarrow>
               (case krb5_db_get_principal h (server ticket) of
                  (r, tgt_entry) \<Rightarrow>
                    if r \<noteq> 0 then
                      cleanup tgt_entry r
                        (Literal ''xrealmauthz plugin failed to retrieve cross-realm TGT from database'')
                        buf [Db_get_principal (server ticket)]
                    else
                      (case check_cross_realm_tgt_attribute h client_realm_acl tgt_entry of
                         (r2, is_allowed) \<Rightarrow>
                           if r2 \<noteq> 0 \<or> is_allowed then
                             cleanup tgt_entry r2 Null buf
                               [Db_get_principal (server ticket),
                                Dbe_get_string tgt_entry client_realm_acl]
                           else
                             principal_scope h ticket request (enforcing_flag data) tgt_entry buf
                               [Db_get_principal (server ticket),
                                Dbe_get_string tgt_entry client_realm_acl]))))"

text \<open>
  What \<^verbatim>\<open>xrealmauthz_check\<close> leaves behind: the outcome of the decision and the two
  lifetimes. A lifetime is \<open>None\<close> when its output pointer is NULL.
\<close>

record check_outcome =
  decision :: outcome
  lifetime_out :: "int option"
  renew_lifetime_out :: "int option"

text \<open>
  \<^verbatim>\<open>xrealmauthz_check\<close>. \<open>lifetime\<close> and \<open>renew_lifetime\<close> are what the output pointers
  point at when the call starts.
\<close>

definition xrealmauthz_check ::
    "kdc_host \<Rightarrow> xrealmauthz_data option \<Rightarrow> krb5_kdc_req \<Rightarrow> krb5_ticket \<Rightarrow>
     int option \<Rightarrow> int option \<Rightarrow> string \<Rightarrow> check_outcome" where
  "xrealmauthz_check h moddata request ticket lifetime renew_lifetime buf =
     (let lifetime' = (case lifetime of None \<Rightarrow> None | Some _ \<Rightarrow> Some 0);
          renew_lifetime' = (case renew_lifetime of None \<Rightarrow> None | Some _ \<Rightarrow> Some 0)
      in
        if krb5_realm_compare (req_server request) (client ticket) then
          \<lparr>decision = \<lparr>ret = 0, status_out = Null, denial_msg = buf, trace = []\<rparr>,
           lifetime_out = lifetime', renew_lifetime_out = renew_lifetime'\<rparr>
        else
          \<lparr>decision = check_cross_realm_auth h ticket request moddata buf,
           lifetime_out = lifetime', renew_lifetime_out = renew_lifetime'\<rparr>)"

text \<open>The text \<^verbatim>\<open>*status_out\<close> points at, read while the static buffer holds \<open>buf\<close>.\<close>

definition status_text :: "string \<Rightarrow> status \<Rightarrow> string option" where
  "status_text buf st = (case st of Null \<Rightarrow> None | Literal s \<Rightarrow> Some s | Denial_msg \<Rightarrow> Some buf)"

subsection \<open>The words of the specification\<close>

text \<open>
  The allowlist of the specification: a realm is a member when an entry matches it in
  length and in content.
\<close>

definition allowlist_contains :: "realm_entry list \<Rightarrow> string \<Rightarrow> bool" where
  "allowlist_contains es r = list_ex (\<lambda>e. entry_length e = length r \<and> entry_name e = r) es"

text \<open>The key formats of the specification.\<close>

definition spec_realm_scope_key :: "krb5_ticket \<Rightarrow> string" where
  "spec_realm_scope_key ticket = ''xr:@'' @ realm (client ticket)"

definition spec_principal_scope_key :: "krb5_ticket \<Rightarrow> string" where
  "spec_principal_scope_key ticket =
     (if realm (server ticket) = realm (client ticket)
      then ''xr:'' @ join_components (components (client ticket))
      else ''xr:'' @ join_components (components (client ticket)) @ ''@'' @
           realm (client ticket))"

text \<open>The fully qualified text of a principal, and the audit message.\<close>

definition principal_text :: "krb5_principal \<Rightarrow> string" where
  "principal_text p = join_components (components p) @ ''@'' @ realm p"

definition spec_audit_status :: "krb5_ticket \<Rightarrow> krb5_kdc_req \<Rightarrow> string" where
  "spec_audit_status ticket request =
     ''xrealmauthz plugin would deny '' @ principal_text (client ticket) @ '' for '' @
     principal_text (req_server request) @ '' from '' @ realm (server ticket)"

text \<open>
  A call reaches the principal-scope check: the client realm is not pre-approved, the
  entry \<open>tgt\<close> is fetched, the realm-scope attribute is read and is absent, and no
  allocation fails on the way.
\<close>

definition reaches_principal_check ::
    "kdc_host \<Rightarrow> xrealmauthz_data option \<Rightarrow> krb5_ticket \<Rightarrow> krb5_db_entry option \<Rightarrow> bool" where
  "reaches_principal_check h data ticket tgt =
     (\<not> is_realm_preapproved data (realm (client ticket)) \<and>
      \<not> asprintf_fails h (spec_realm_scope_key ticket) \<and>
      krb5_db_get_principal h (server ticket) = (0, tgt) \<and>
      krb5_dbe_get_string h tgt (spec_realm_scope_key ticket) = (0, None) \<and>
      unparse_ret h (client ticket) (realm (server ticket) = realm (client ticket)) = 0 \<and>
      \<not> asprintf_fails h (spec_principal_scope_key ticket))"

text \<open>
  The calls made up to the principal-scope check, and \<^verbatim>\<open>client_princ_str\<close> after the
  key is built (line 278).
\<close>

definition principal_check_trace :: "krb5_ticket \<Rightarrow> krb5_db_entry option \<Rightarrow> event list" where
  "principal_check_trace ticket tgt =
     [Db_get_principal (server ticket),
      Dbe_get_string tgt (spec_realm_scope_key ticket),
      Unparse_name (client ticket) (realm (server ticket) = realm (client ticket)),
      Dbe_get_string tgt (spec_principal_scope_key ticket)]"

definition client_princ_str_of :: "krb5_ticket \<Rightarrow> string option" where
  "client_princ_str_of ticket =
     (if realm (server ticket) = realm (client ticket) then None
      else Some (principal_text (client ticket)))"

text \<open>
  Line 232: the key of the client realm as the code builds it, with the realm printed
  by \<^verbatim>\<open>%.*s\<close>.
\<close>

definition client_realm_acl :: "krb5_ticket \<Rightarrow> string" where
  "client_realm_acl ticket =
     ATTR_PREFIX @ ''@'' @
     fmt_prec_s (length (realm (client ticket))) (realm (client ticket))"

text \<open>
  A call reaches the principal-scope check, with the realm-scope key as the code builds
  it: the client realm is not pre-approved, the entry \<open>tgt\<close> is fetched, the read of the
  realm-scope key finds nothing, and no allocation fails on the way.
\<close>

definition reaches_principal_scope ::
    "kdc_host \<Rightarrow> xrealmauthz_data option \<Rightarrow> krb5_ticket \<Rightarrow> krb5_db_entry option \<Rightarrow> bool" where
  "reaches_principal_scope h data ticket tgt =
     (\<not> is_realm_preapproved data (realm (client ticket)) \<and>
      \<not> asprintf_fails h (client_realm_acl ticket) \<and>
      krb5_db_get_principal h (server ticket) = (0, tgt) \<and>
      krb5_dbe_get_string h tgt (client_realm_acl ticket) = (0, None) \<and>
      unparse_ret h (client ticket) (realm (server ticket) = realm (client ticket)) = 0 \<and>
      \<not> asprintf_fails h (spec_principal_scope_key ticket))"

text \<open>The calls such a call has made when the principal-scope key has been read.\<close>

definition principal_scope_calls :: "krb5_ticket \<Rightarrow> krb5_db_entry option \<Rightarrow> event list" where
  "principal_scope_calls ticket tgt =
     [Db_get_principal (server ticket),
      Dbe_get_string tgt (client_realm_acl ticket),
      Unparse_name (client ticket) (realm (server ticket) = realm (client ticket)),
      Dbe_get_string tgt (spec_principal_scope_key ticket)]"

text \<open>
  The verdicts of the specification, read off the returned code: zero allows, and the
  deny verdict is the policy error with the message in the buffer.
\<close>

definition allow :: "outcome \<Rightarrow> bool" where
  "allow out = (ret out = 0)"

definition deny_verdict :: "outcome \<Rightarrow> bool" where
  "deny_verdict out = (ret out = KRB5KDC_ERR_POLICY \<and> status_out out = Denial_msg)"

text \<open>
  Well-formed UTF-8, by the lead byte of each sequence: one byte below \<open>0x80\<close>, or a
  lead byte followed by one, two or three continuation bytes.
\<close>

definition continuation :: "char \<Rightarrow> bool" where
  "continuation c = (0x80 \<le> (of_char c :: nat) \<and> (of_char c :: nat) < 0xC0)"

fun utf8_wf :: "string \<Rightarrow> bool" where
  "utf8_wf [] = True"
| "utf8_wf (c # cs) =
     (if (of_char c :: nat) < 0x80 then utf8_wf cs
      else if 0xC2 \<le> (of_char c :: nat) \<and> (of_char c :: nat) < 0xE0 then
        (case cs of
           c1 # r \<Rightarrow> continuation c1 \<and> utf8_wf r
         | _ \<Rightarrow> False)
      else if 0xE0 \<le> (of_char c :: nat) \<and> (of_char c :: nat) < 0xF0 then
        (case cs of
           c1 # c2 # r \<Rightarrow> continuation c1 \<and> continuation c2 \<and> utf8_wf r
         | _ \<Rightarrow> False)
      else if 0xF0 \<le> (of_char c :: nat) \<and> (of_char c :: nat) < 0xF5 then
        (case cs of
           c1 # c2 # c3 # r \<Rightarrow>
             continuation c1 \<and> continuation c2 \<and> continuation c3 \<and> utf8_wf r
         | _ \<Rightarrow> False)
      else False)"

subsection \<open>Example inputs\<close>

text \<open>
  A host whose database holds the entry 7 for every principal, with the attributes of
  \<open>attrs\<close> on it, and whose allocations succeed.
\<close>

definition host_with :: "(string \<times> string) list \<Rightarrow> kdc_host" where
  "host_with attrs =
     \<lparr>krb5_db_get_principal = (\<lambda>p. (0, Some 7)),
      krb5_dbe_get_string = (\<lambda>e k. (0, map_of attrs k)),
      unparse_ret = (\<lambda>p b. 0),
      asprintf_fails = (\<lambda>s. False)\<rparr>"

text \<open>A host whose database does not hold the entry (the fetch fails with code 5).\<close>

definition host_no_entry :: kdc_host where
  "host_no_entry =
     \<lparr>krb5_db_get_principal = (\<lambda>p. (5, None)),
      krb5_dbe_get_string = (\<lambda>e k. (0, None)),
      unparse_ret = (\<lambda>p b. 0),
      asprintf_fails = (\<lambda>s. False)\<rparr>"

text \<open>A host on which every attribute read fails with code 22.\<close>

definition host_unreadable :: kdc_host where
  "host_unreadable =
     \<lparr>krb5_db_get_principal = (\<lambda>p. (0, Some 7)),
      krb5_dbe_get_string = (\<lambda>e k. (22, None)),
      unparse_ret = (\<lambda>p b. 0),
      asprintf_fails = (\<lambda>s. False)\<rparr>"

definition princ :: "string list \<Rightarrow> string \<Rightarrow> krb5_principal" where
  "princ cs r = \<lparr>realm = r, components = cs\<rparr>"

text \<open>
  The client \<open>name@R1\<close> with the ticket-granting ticket \<open>krbtgt/R2@R1\<close> from its own
  realm (a direct hop), and the client \<open>name@R0\<close> with the same ticket-granting ticket
  (a transitive hop).
\<close>

definition direct_ticket :: "string \<Rightarrow> krb5_ticket" where
  "direct_ticket name =
     \<lparr>server = princ [''krbtgt'', ''R2''] ''R1'', client = princ [name] ''R1''\<rparr>"

definition transitive_ticket :: "string \<Rightarrow> krb5_ticket" where
  "transitive_ticket name =
     \<lparr>server = princ [''krbtgt'', ''R2''] ''R1'', client = princ [name] ''R0''\<rparr>"

definition http_request :: krb5_kdc_req where
  "http_request = \<lparr>req_server = princ [''HTTP'', ''www''] ''R2''\<rparr>"

definition audit_data :: xrealmauthz_data where
  "audit_data = \<lparr>enforcing = 0, allowed_realms = None\<rparr>"

definition enforcing_data :: xrealmauthz_data where
  "enforcing_data =
     \<lparr>enforcing = 1, allowed_realms = Some [\<lparr>entry_name = ''R9'', entry_length = 2\<rparr>]\<rparr>"

text \<open>
  A client of the realm \<open>R9\<close>, which \<open>enforcing_data\<close> allows, and a client of the
  realm \<open>R2\<close> of the requested service.
\<close>

definition peer_ticket :: krb5_ticket where
  "peer_ticket =
     \<lparr>server = princ [''krbtgt'', ''R2''] ''R9'', client = princ [''alice''] ''R9''\<rparr>"

definition local_ticket :: krb5_ticket where
  "local_ticket =
     \<lparr>server = princ [''krbtgt'', ''R2''] ''R2'', client = princ [''alice''] ''R2''\<rparr>"

text \<open>A ticket-granting ticket from a realm of 225 bytes.\<close>

definition long_realm_ticket :: krb5_ticket where
  "long_realm_ticket =
     \<lparr>server = princ [''krbtgt'', ''R2''] (replicate 225 CHR ''A''),
      client = princ [''alice''] ''R0''\<rparr>"

text \<open>
  A client name of 226 bytes that ends in the two bytes of a UTF-8 sequence; in the
  audit message the first of the two is byte 255.
\<close>

definition utf8_name :: string where
  "utf8_name = replicate 224 CHR ''a'' @ [CHR 0xC3, CHR 0xA9]"

text \<open>
  A client whose realm holds a zero byte after \<open>R1\<close>, a direct hop in a realm with a
  zero byte, and a ticket-granting ticket whose realm holds a zero byte after \<open>R\<close>.
\<close>

definition nul_client_ticket :: krb5_ticket where
  "nul_client_ticket =
     \<lparr>server = princ [''krbtgt'', ''R2''] ''R1'',
      client = princ [''mallory''] (''R1'' @ [CHR 0x00] @ ''EVIL'')\<rparr>"

definition nul_direct_ticket :: krb5_ticket where
  "nul_direct_ticket =
     \<lparr>server = princ [''krbtgt'', ''R2''] (''R1'' @ [CHR 0x00] @ ''X''),
      client = princ [''alice''] (''R1'' @ [CHR 0x00] @ ''X'')\<rparr>"

definition nul_server_ticket :: krb5_ticket where
  "nul_server_ticket =
     \<lparr>server = princ [''krbtgt'', ''R2''] (''R'' @ [CHR 0x00] @ ''X''),
      client = princ [''alice''] ''R0''\<rparr>"

text \<open>
  Two calls in audit mode, one after the other: the second starts with the static
  buffer as the first left it.
\<close>

definition first_call :: outcome where
  "first_call =
     check_cross_realm_auth (host_with []) (direct_ticket ''alice'') http_request
       (Some audit_data) []"

definition second_call :: outcome where
  "second_call =
     check_cross_realm_auth (host_with []) (direct_ticket ''bob'') http_request
       (Some audit_data) (denial_msg first_call)"

section \<open>Properties\<close>

subsection \<open>Unfolding\<close>

lemmas plugin_defs =
  check_cross_realm_auth_def principal_scope_def build_principal_acl_def deny_branch_def
  cleanup_def check_cross_realm_tgt_attribute_def is_realm_preapproved_def enforcing_flag_def
  krb5_realm_compare_def krb5_unparse_name_def krb5_unparse_name_flags_def asprintf_def
  snprintf_def fmt_prec_s_def audit_msg_def enforcing_msg_def byte_at_def
  ATTR_PREFIX_def MAX_DENIAL_MSG_LEN_def NUL_def ENOMEM_def Let_def

lemmas example_defs =
  host_with_def host_no_entry_def host_unreadable_def princ_def direct_ticket_def
  transitive_ticket_def peer_ticket_def local_ticket_def http_request_def audit_data_def
  enforcing_data_def
  reaches_principal_check_def spec_realm_scope_key_def spec_principal_scope_key_def
  principal_check_trace_def principal_text_def

lemmas reach_defs =
  reaches_principal_scope_def client_realm_acl_def principal_scope_calls_def
  nul_client_ticket_def nul_direct_ticket_def nul_server_ticket_def

subsection \<open>The allowlist\<close>

lemma strncmp_same: "strncmp s s n = 0"
  by (induction n arbitrary: s) simp_all

lemma preapproved_loop_contains: "allowlist_contains es r \<Longrightarrow> preapproved_loop es r"
  by (induction es) (auto simp: allowlist_contains_def strncmp_same)

text \<open>
  Against a name without a zero byte and of the length compared, \<open>strncmp\<close> is
  equality: the loop finds nothing but exact matches among entries whose length field
  is the length of their name.
\<close>

lemma strncmp_zero_iff:
  "NUL \<notin> set s1 \<Longrightarrow> length s1 = n \<Longrightarrow> length s2 = n \<Longrightarrow> strncmp s1 s2 n = 0 \<longleftrightarrow> s1 = s2"
proof (induction n arbitrary: s1 s2)
  case 0
  then show ?case by simp
next
  case (Suc n)
  then obtain a r1 b r2 where "s1 = a # r1" "s2 = b # r2"
    by (cases s1; cases s2) auto
  with Suc show ?case
    by (auto simp: byte_at_def)
qed

lemma preapproved_loop_exact:
  assumes "\<forall>e \<in> set es. NUL \<notin> set (entry_name e) \<and> entry_length e = length (entry_name e)"
  shows "preapproved_loop es r = allowlist_contains es r"
  using assms
proof (induction es)
  case Nil
  then show ?case
    by (simp add: allowlist_contains_def)
next
  case (Cons e es)
  then have "preapproved_loop es r = allowlist_contains es r"
    by simp
  moreover have "strncmp (entry_name e) r (length r) = 0 \<longleftrightarrow> entry_name e = r"
    if "entry_length e = length r"
    using that Cons.prems strncmp_zero_iff [of "entry_name e" "length r" r] by simp
  ultimately show ?case
    by (auto simp: allowlist_contains_def)
qed

text \<open>The entries that \<^verbatim>\<open>xrealmauthz_init\<close> builds from names without a zero byte.\<close>

lemma realm_entries_exact:
  assumes "\<forall>s \<in> set names. NUL \<notin> set s"
  shows "preapproved_loop (realm_entries names) r \<longleftrightarrow> r \<in> set names"
proof -
  have l: "strlen s = length s" if "NUL \<notin> set s" for s
    using that unfolding strlen_def by (induction s) auto
  with assms have "preapproved_loop (realm_entries names) r =
      allowlist_contains (realm_entries names) r"
    by (intro preapproved_loop_exact) (auto simp: realm_entries_def)
  also have "\<dots> \<longleftrightarrow> r \<in> set names"
    using assms l by (auto simp: allowlist_contains_def realm_entries_def list_ex_iff)
  finally show ?thesis .
qed

text \<open>
  C2. When the realm of the client is a member of the allowed realms (an entry matches
  it in length and content), the decision returns 0 with no status at once: the trace
  is empty, so the entry of the ticket-granting ticket is not fetched and no attribute
  is read, and the static buffer is left as it was.
\<close>

theorem preapproved_realm_allows_without_lookup:
  assumes "allowed_realms d = Some es"
      and "allowlist_contains es (realm (client ticket))"
  shows "check_cross_realm_auth h ticket request (Some d) buf =
           \<lparr>ret = 0, status_out = Null, denial_msg = buf, trace = []\<rparr>"
  using assms preapproved_loop_contains [of es "realm (client ticket)"]
  by (simp add: check_cross_realm_auth_def is_realm_preapproved_def)

theorem preapproved_realm_witness:
  "allowed_realms enforcing_data = Some [\<lparr>entry_name = ''R9'', entry_length = 2\<rparr>] \<and>
   allowlist_contains [\<lparr>entry_name = ''R9'', entry_length = 2\<rparr>] (realm (client peer_ticket)) \<and>
   check_cross_realm_auth host_no_entry peer_ticket http_request (Some enforcing_data) ''old'' =
     \<lparr>ret = 0, status_out = Null, denial_msg = ''old'', trace = []\<rparr>"
proof -
  have a: "allowed_realms enforcing_data = Some [\<lparr>entry_name = ''R9'', entry_length = 2\<rparr>]"
    by (simp add: enforcing_data_def)
  have c: "allowlist_contains [\<lparr>entry_name = ''R9'', entry_length = 2\<rparr>]
      (realm (client peer_ticket))"
    by (simp add: allowlist_contains_def example_defs)
  show ?thesis
    using a c
      preapproved_realm_allows_without_lookup [OF a c, of host_no_entry http_request "''old''"]
    by simp
qed

subsection \<open>The same-realm short circuit\<close>

text \<open>
  C10. \<^verbatim>\<open>xrealmauthz_check\<close> sets each lifetime that has an output pointer to zero on
  every call, and when the realm of the requested server equals the realm of the client
  it returns 0 with no status and an empty trace: the result names neither the module
  data nor the host, so no allowlist, entry or attribute is consulted.
\<close>

theorem same_realm_short_circuit:
  "lifetime_out (xrealmauthz_check h moddata request ticket lifetime renew_lifetime buf) =
     map_option (\<lambda>_. 0) lifetime \<and>
   renew_lifetime_out (xrealmauthz_check h moddata request ticket lifetime renew_lifetime buf) =
     map_option (\<lambda>_. 0) renew_lifetime \<and>
   (realm (req_server request) = realm (client ticket) \<longrightarrow>
      decision (xrealmauthz_check h moddata request ticket lifetime renew_lifetime buf) =
        \<lparr>ret = 0, status_out = Null, denial_msg = buf, trace = []\<rparr>)"
  by (cases lifetime; cases renew_lifetime)
     (simp_all add: xrealmauthz_check_def krb5_realm_compare_def Let_def)

theorem same_realm_witness:
  "realm (req_server http_request) = realm (client local_ticket) \<and>
   xrealmauthz_check host_no_entry (Some enforcing_data) http_request local_ticket
     (Some 36000) None ''old'' =
     \<lparr>decision = \<lparr>ret = 0, status_out = Null, denial_msg = ''old'', trace = []\<rparr>,
      lifetime_out = Some 0, renew_lifetime_out = None\<rparr>"
proof -
  have r: "realm (req_server http_request) = realm (client local_ticket)"
    by (simp add: example_defs)
  show ?thesis
    using r same_realm_short_circuit [of host_no_entry "Some enforcing_data" http_request
        local_ticket "Some 36000" None "''old''"]
    by (simp add: check_outcome.equality)
qed

subsection \<open>The keys and the order of the checks\<close>

lemma fmt_prec_s_whole: "NUL \<notin> set s \<Longrightarrow> fmt_prec_s (length s) s = s"
  by (auto simp: fmt_prec_s_def)

lemma build_principal_acl_spec:
  assumes "unparse_ret h (client ticket) (realm (server ticket) = realm (client ticket)) = 0"
      and "\<not> asprintf_fails h (spec_principal_scope_key ticket)"
  shows "build_principal_acl h ticket =
           Inr (spec_principal_scope_key ticket, client_princ_str_of ticket)"
proof (cases "realm (server ticket) = realm (client ticket)")
  case True
  with assms show ?thesis
    by (simp add: build_principal_acl_def krb5_realm_compare_def
        krb5_unparse_name_flags_def asprintf_def spec_principal_scope_key_def ATTR_PREFIX_def
        client_princ_str_of_def)
next
  case False
  with assms show ?thesis
    by (simp add: build_principal_acl_def krb5_realm_compare_def krb5_unparse_name_def
        krb5_unparse_name_flags_def asprintf_def spec_principal_scope_key_def ATTR_PREFIX_def
        client_princ_str_of_def principal_text_def)
qed

text \<open>What a call that reaches the principal-scope check does from there on.\<close>

lemma reaches_principal_check_outcome:
  assumes nul: "NUL \<notin> set (realm (client ticket))"
      and reach: "reaches_principal_check h data ticket tgt"
  shows "check_cross_realm_auth h ticket request data buf =
           (case krb5_dbe_get_string h tgt (spec_principal_scope_key ticket) of
              (r, attr_value) \<Rightarrow>
                if r \<noteq> 0 \<or> attr_value \<noteq> None then
                  cleanup tgt r Null buf (principal_check_trace ticket tgt)
                else
                  deny_branch h ticket request (enforcing_flag data)
                    (client_princ_str_of ticket) tgt buf (principal_check_trace ticket tgt))"
proof -
  from reach have b: "build_principal_acl h ticket =
      Inr (spec_principal_scope_key ticket, client_princ_str_of ticket)"
    by (simp add: reaches_principal_check_def build_principal_acl_spec)
  from reach show ?thesis
    by (simp add: check_cross_realm_auth_def Let_def fmt_prec_s_whole [OF nul] asprintf_def
        reaches_principal_check_def check_cross_realm_tgt_attribute_def principal_scope_def b
        krb5_realm_compare_def principal_check_trace_def spec_realm_scope_key_def
        ATTR_PREFIX_def split: prod.splits)
qed




lemma reaches_principal_scope_outcome:
  assumes reach: "reaches_principal_scope h data ticket tgt"
  shows "check_cross_realm_auth h ticket request data buf =
           (case krb5_dbe_get_string h tgt (spec_principal_scope_key ticket) of
              (r, attr_value) \<Rightarrow>
                if r \<noteq> 0 \<or> attr_value \<noteq> None then
                  cleanup tgt r Null buf (principal_scope_calls ticket tgt)
                else
                  deny_branch h ticket request (enforcing_flag data)
                    (client_princ_str_of ticket) tgt buf (principal_scope_calls ticket tgt))"
proof -
  from reach have b: "build_principal_acl h ticket =
      Inr (spec_principal_scope_key ticket, client_princ_str_of ticket)"
    by (simp add: reaches_principal_scope_def build_principal_acl_spec)
  have k: "ATTR_PREFIX @ ''@'' @
      fmt_prec_s (length (realm (client ticket))) (realm (client ticket)) =
      client_realm_acl ticket"
    by (simp add: client_realm_acl_def)
  from reach show ?thesis
    unfolding check_cross_realm_auth_def Let_def k
    by (simp add: asprintf_def reaches_principal_scope_def
        check_cross_realm_tgt_attribute_def principal_scope_def b Let_def
        krb5_realm_compare_def principal_scope_calls_def split: prod.splits)
qed

lemma no_attribute_found_outcome:
  assumes "reaches_principal_scope h data ticket tgt"
      and "krb5_dbe_get_string h tgt (spec_principal_scope_key ticket) = (0, None)"
  shows "check_cross_realm_auth h ticket request data buf =
           deny_branch h ticket request (enforcing_flag data) (client_princ_str_of ticket)
             tgt buf (principal_scope_calls ticket tgt)"
  using assms(2) by (simp add: reaches_principal_scope_outcome [OF assms(1)])






subsection \<open>Failures of the database\<close>

lemma deny_branch_no_read:
  "Dbe_get_string e k \<in> set (trace (deny_branch h t rq en cps tgt buf tr)) \<Longrightarrow>
   Dbe_get_string e k \<in> set tr"
  by (auto simp: deny_branch_def cleanup_def split: sum.splits option.splits if_splits)

lemma deny_branch_no_fetch:
  "Db_get_principal p \<in> set (trace (deny_branch h t rq en cps tgt buf tr)) \<Longrightarrow>
   Db_get_principal p \<in> set tr"
  by (auto simp: deny_branch_def cleanup_def split: sum.splits option.splits if_splits)

lemma principal_scope_no_fetch:
  "Db_get_principal p \<in> set (trace (principal_scope h t rq en tgt buf tr)) \<Longrightarrow>
   Db_get_principal p \<in> set tr"
  by (auto simp: principal_scope_def cleanup_def Let_def dest!: deny_branch_no_fetch
      split: sum.splits prod.splits if_splits)

lemma principal_scope_failed_read:
  assumes "Dbe_get_string e k \<in> set (trace (principal_scope h t rq en tgt buf tr))"
      and "Dbe_get_string e k \<notin> set tr"
      and "fst (krb5_dbe_get_string h e k) \<noteq> 0"
  shows "ret (principal_scope h t rq en tgt buf tr) = fst (krb5_dbe_get_string h e k) \<and>
         status_out (principal_scope h t rq en tgt buf tr) = Null \<and>
         denial_msg (principal_scope h t rq en tgt buf tr) = buf \<and>
         (\<exists>tr'. trace (principal_scope h t rq en tgt buf tr) =
            tr' @ [Dbe_get_string e k, Db_free_principal e])"
  using assms
  by (auto simp: principal_scope_def cleanup_def Let_def check_cross_realm_tgt_attribute_def
      dest!: deny_branch_no_read split: sum.splits prod.splits if_splits)

lemma failed_lookup_core:
  "(Db_get_principal p \<in> set (trace (check_cross_realm_auth h ticket request data buf)) \<and>
    fst (krb5_db_get_principal h p) \<noteq> 0 \<longrightarrow>
      check_cross_realm_auth h ticket request data buf =
        \<lparr>ret = fst (krb5_db_get_principal h p),
         status_out =
           Literal ''xrealmauthz plugin failed to retrieve cross-realm TGT from database'',
         denial_msg = buf,
         trace = [Db_get_principal p, Db_free_principal (snd (krb5_db_get_principal h p))]\<rparr>) \<and>
   (Dbe_get_string e k \<in> set (trace (check_cross_realm_auth h ticket request data buf)) \<and>
    fst (krb5_dbe_get_string h e k) \<noteq> 0 \<longrightarrow>
      ret (check_cross_realm_auth h ticket request data buf) = fst (krb5_dbe_get_string h e k) \<and>
      status_out (check_cross_realm_auth h ticket request data buf) = Null \<and>
      denial_msg (check_cross_realm_auth h ticket request data buf) = buf \<and>
      (\<exists>tr. trace (check_cross_realm_auth h ticket request data buf) =
         tr @ [Dbe_get_string e k, Db_free_principal e]))"
proof (rule conjI; rule impI)
  assume "Db_get_principal p \<in> set (trace (check_cross_realm_auth h ticket request data buf)) \<and>
    fst (krb5_db_get_principal h p) \<noteq> 0"
  then show "check_cross_realm_auth h ticket request data buf =
        \<lparr>ret = fst (krb5_db_get_principal h p),
         status_out =
           Literal ''xrealmauthz plugin failed to retrieve cross-realm TGT from database'',
         denial_msg = buf,
         trace = [Db_get_principal p, Db_free_principal (snd (krb5_db_get_principal h p))]\<rparr>"
    by (auto simp: check_cross_realm_auth_def cleanup_def Let_def
        dest!: principal_scope_no_fetch split: option.splits prod.splits if_splits)
next
  let ?out = "check_cross_realm_auth h ticket request data buf"
  assume a: "Dbe_get_string e k \<in> set (trace ?out) \<and> fst (krb5_dbe_get_string h e k) \<noteq> 0"
  show "ret ?out = fst (krb5_dbe_get_string h e k) \<and> status_out ?out = Null \<and>
      denial_msg ?out = buf \<and> (\<exists>tr. trace ?out = tr @ [Dbe_get_string e k, Db_free_principal e])"
  proof (cases "is_realm_preapproved data (realm (client ticket))")
    case True
    with a show ?thesis
      by (simp add: check_cross_realm_auth_def)
  next
    case np: False
    show ?thesis
    proof (cases "asprintf h (ATTR_PREFIX @ ''@'' @
        fmt_prec_s (length (realm (client ticket))) (realm (client ticket)))")
      case None
      with a np show ?thesis
        by (simp add: check_cross_realm_auth_def cleanup_def Let_def)
    next
      case (Some acl)
      obtain r tgt where f: "krb5_db_get_principal h (server ticket) = (r, tgt)"
        by force
      obtain r2 v where g: "krb5_dbe_get_string h tgt acl = (r2, v)"
        by force
      show ?thesis
      proof (cases "r = 0 \<and> r2 = 0 \<and> v = None")
        case True
        with np Some f g have o: "?out = principal_scope h ticket request (enforcing_flag data)
            tgt buf [Db_get_principal (server ticket), Dbe_get_string tgt acl]"
          by (simp add: check_cross_realm_auth_def Let_def check_cross_realm_tgt_attribute_def)
        from a g True have "Dbe_get_string e k \<notin>
            set [Db_get_principal (server ticket), Dbe_get_string tgt acl]"
          by auto
        with a show ?thesis
          unfolding o by (intro principal_scope_failed_read) auto
      next
        case False
        show ?thesis
        proof (cases "r = 0")
          case True
          with False a np Some f g show ?thesis
            by (auto simp: check_cross_realm_auth_def cleanup_def Let_def
                check_cross_realm_tgt_attribute_def)
        next
          case False
          with a np Some f g show ?thesis
            by (simp add: check_cross_realm_auth_def cleanup_def Let_def)
        qed
      qed
    qed
  qed
qed

text \<open>
  C6. When the fetch of the entry fails, the call returns the code of the fetch with
  the fixed text about the failed retrieval as status, and its trace is the fetch and
  the release: no attribute is read. When a read of an attribute fails, the call
  returns the code of that read with no status, the failed read is the last call before
  the release, and the static buffer is untouched. In both cases the result is neither
  an allow (code 0) nor the deny verdict (the policy error with the denial message).
\<close>

theorem failed_lookup_aborts:
  "(Db_get_principal p \<in> set (trace (check_cross_realm_auth h ticket request data buf)) \<and>
    fst (krb5_db_get_principal h p) \<noteq> 0 \<longrightarrow>
      check_cross_realm_auth h ticket request data buf =
        \<lparr>ret = fst (krb5_db_get_principal h p),
         status_out =
           Literal ''xrealmauthz plugin failed to retrieve cross-realm TGT from database'',
         denial_msg = buf,
         trace = [Db_get_principal p, Db_free_principal (snd (krb5_db_get_principal h p))]\<rparr> \<and>
      \<not> allow (check_cross_realm_auth h ticket request data buf) \<and>
      \<not> deny_verdict (check_cross_realm_auth h ticket request data buf)) \<and>
   (Dbe_get_string e k \<in> set (trace (check_cross_realm_auth h ticket request data buf)) \<and>
    fst (krb5_dbe_get_string h e k) \<noteq> 0 \<longrightarrow>
      ret (check_cross_realm_auth h ticket request data buf) = fst (krb5_dbe_get_string h e k) \<and>
      status_out (check_cross_realm_auth h ticket request data buf) = Null \<and>
      denial_msg (check_cross_realm_auth h ticket request data buf) = buf \<and>
      (\<exists>tr. trace (check_cross_realm_auth h ticket request data buf) =
         tr @ [Dbe_get_string e k, Db_free_principal e]) \<and>
      \<not> allow (check_cross_realm_auth h ticket request data buf) \<and>
      \<not> deny_verdict (check_cross_realm_auth h ticket request data buf))"
  using failed_lookup_core [of p h ticket request data buf e k]
  by (auto simp: allow_def deny_verdict_def)

theorem failed_lookup_witness:
  "Db_get_principal (server (direct_ticket ''alice'')) \<in>
     set (trace (check_cross_realm_auth host_no_entry (direct_ticket ''alice'') http_request
       (Some audit_data) ''old'')) \<and>
   fst (krb5_db_get_principal host_no_entry (server (direct_ticket ''alice''))) \<noteq> 0 \<and>
   check_cross_realm_auth host_no_entry (direct_ticket ''alice'') http_request
       (Some audit_data) ''old'' =
     \<lparr>ret = 5,
      status_out = Literal ''xrealmauthz plugin failed to retrieve cross-realm TGT from database'',
      denial_msg = ''old'',
      trace = [Db_get_principal (princ [''krbtgt'', ''R2''] ''R1''), Db_free_principal None]\<rparr> \<and>
   Dbe_get_string (Some 7) ''xr:@R1'' \<in>
     set (trace (check_cross_realm_auth host_unreadable (direct_ticket ''alice'') http_request
       (Some audit_data) ''old'')) \<and>
   fst (krb5_dbe_get_string host_unreadable (Some 7) ''xr:@R1'') \<noteq> 0 \<and>
   ret (check_cross_realm_auth host_unreadable (direct_ticket ''alice'') http_request
       (Some audit_data) ''old'') = 22 \<and>
   status_out (check_cross_realm_auth host_unreadable (direct_ticket ''alice'') http_request
       (Some audit_data) ''old'') = Null"
proof -
  let ?o1 = "check_cross_realm_auth host_no_entry (direct_ticket ''alice'') http_request
       (Some audit_data) ''old''"
  let ?o2 = "check_cross_realm_auth host_unreadable (direct_ticket ''alice'') http_request
       (Some audit_data) ''old''"
  have a: "Db_get_principal (server (direct_ticket ''alice'')) \<in> set (trace ?o1) \<and>
      fst (krb5_db_get_principal host_no_entry (server (direct_ticket ''alice''))) \<noteq> 0"
    by (simp add: example_defs plugin_defs)
  have b: "Dbe_get_string (Some 7) ''xr:@R1'' \<in> set (trace ?o2) \<and>
      fst (krb5_dbe_get_string host_unreadable (Some 7) ''xr:@R1'') \<noteq> 0"
    by (simp add: example_defs plugin_defs)
  show ?thesis
    using a b
      failed_lookup_aborts [of "server (direct_ticket ''alice'')" host_no_entry "direct_ticket ''alice''"
        http_request "Some audit_data" "''old''" None "[]"]
      failed_lookup_aborts [of "server (direct_ticket ''alice'')" host_unreadable "direct_ticket ''alice''"
        http_request "Some audit_data" "''old''" "Some 7" "''xr:@R1''"]
    by (simp add: example_defs)
qed

subsection \<open>The deny and audit branch\<close>

lemma no_attribute_outcome:
  assumes "NUL \<notin> set (realm (client ticket))"
      and "reaches_principal_check h data ticket tgt"
      and "krb5_dbe_get_string h tgt (spec_principal_scope_key ticket) = (0, None)"
  shows "check_cross_realm_auth h ticket request data buf =
           deny_branch h ticket request (enforcing_flag data) (client_princ_str_of ticket)
             tgt buf (principal_check_trace ticket tgt)"
  using assms(3) by (simp add: reaches_principal_check_outcome [OF assms(1,2)])

lemma unparse_name_text:
  "unparse_ret h p False = 0 \<Longrightarrow> krb5_unparse_name h p = Inr (principal_text p)"
  by (simp add: krb5_unparse_name_def krb5_unparse_name_flags_def principal_text_def)

lemma audit_msg_spec:
  "NUL \<notin> set (realm (server ticket)) \<Longrightarrow>
   audit_msg (principal_text (client ticket)) (principal_text (req_server request))
     (server ticket) = spec_audit_status ticket request"
  by (simp add: audit_msg_def spec_audit_status_def fmt_prec_s_whole)

lemma deny_branch_audit:
  assumes "unparse_ret h (client ticket) False = 0"
      and "unparse_ret h (req_server request) False = 0"
  shows "deny_branch h ticket request False (client_princ_str_of ticket) tgt buf tr =
           cleanup tgt 0 Denial_msg
             (snprintf MAX_DENIAL_MSG_LEN
                (audit_msg (principal_text (client ticket))
                   (principal_text (req_server request)) (server ticket)))
             (tr @
              (if realm (server ticket) = realm (client ticket)
               then [Unparse_name (client ticket) False] else []) @
              [Unparse_name (req_server request) False,
               Com_err (snprintf MAX_DENIAL_MSG_LEN
                 (audit_msg (principal_text (client ticket))
                    (principal_text (req_server request)) (server ticket)))])"
  by (simp add: deny_branch_def unparse_name_text [OF assms(1)] unparse_name_text [OF assms(2)]
      client_princ_str_of_def)

lemma enforcing_call:
  assumes "enforcing_flag data"
      and "reaches_principal_scope h data ticket tgt"
      and "krb5_dbe_get_string h tgt (spec_principal_scope_key ticket) = (0, None)"
  shows "check_cross_realm_auth h ticket request data buf =
           cleanup tgt KRB5KDC_ERR_POLICY Denial_msg
             (take 255 (''xrealmauthz plugin denied from '' @
                        takeWhile (\<lambda>c. c \<noteq> NUL) (realm (server ticket))))
             (principal_scope_calls ticket tgt)"
  using assms(1)
  by (simp add: no_attribute_found_outcome [OF assms(2,3)] deny_branch_def
      snprintf_def MAX_DENIAL_MSG_LEN_def enforcing_msg_def fmt_prec_s_def)


text \<open>
  C4 (amended). When neither attribute is there and enforcing is on (nothing failed on
  the way), the call returns the policy error, so it does not allow, with the static
  buffer as status, and the buffer holds the first 255 bytes of
  \<open>xrealmauthz plugin denied from\<close> followed by the bytes of the realm of
  \<^verbatim>\<open>ticket->server\<close> before its first zero byte: the whole message with the whole realm
  when that realm holds no zero byte and has at most 224 bytes. The text is made of the
  realm of the ticket's server only; no part of the client's name enters it.
\<close>

theorem enforcing_denial_status:
  assumes "enforcing_flag data"
      and "reaches_principal_scope h data ticket tgt"
      and "krb5_dbe_get_string h tgt (spec_principal_scope_key ticket) = (0, None)"
  shows "ret (check_cross_realm_auth h ticket request data buf) = KRB5KDC_ERR_POLICY \<and>
         \<not> allow (check_cross_realm_auth h ticket request data buf) \<and>
         status_out (check_cross_realm_auth h ticket request data buf) = Denial_msg \<and>
         denial_msg (check_cross_realm_auth h ticket request data buf) =
           take 255 (''xrealmauthz plugin denied from '' @
                     takeWhile (\<lambda>c. c \<noteq> NUL) (realm (server ticket))) \<and>
         (NUL \<notin> set (realm (server ticket)) \<and> length (realm (server ticket)) \<le> 224 \<longrightarrow>
            denial_msg (check_cross_realm_auth h ticket request data buf) =
              ''xrealmauthz plugin denied from '' @ realm (server ticket))"
proof -
  let ?o = "check_cross_realm_auth h ticket request data buf"
  have d: "denial_msg ?o = take 255 (''xrealmauthz plugin denied from '' @
      takeWhile (\<lambda>c. c \<noteq> NUL) (realm (server ticket)))"
    by (simp add: enforcing_call [OF assms] cleanup_def)
  have "denial_msg ?o = ''xrealmauthz plugin denied from '' @ realm (server ticket)"
    if n: "NUL \<notin> set (realm (server ticket))" and l: "length (realm (server ticket)) \<le> 224"
  proof -
    have w: "takeWhile (\<lambda>c. c \<noteq> NUL) (realm (server ticket)) = realm (server ticket)"
      using n by auto
    from l show ?thesis
      unfolding d w by simp
  qed
  then show ?thesis
    by (simp add: enforcing_call [OF assms] cleanup_def allow_def KRB5KDC_ERR_POLICY_def)
qed

theorem enforcing_denial_witness:
  "enforcing_flag (Some enforcing_data) \<and>
   reaches_principal_scope (host_with [(''xr:alice@R1'', ''1'')]) (Some enforcing_data)
     (direct_ticket ''alice'') (Some 7) \<and>
   krb5_dbe_get_string (host_with [(''xr:alice@R1'', ''1'')]) (Some 7)
     (spec_principal_scope_key (direct_ticket ''alice'')) = (0, None) \<and>
   NUL \<notin> set (realm (server (direct_ticket ''alice''))) \<and>
   length (realm (server (direct_ticket ''alice''))) \<le> 224 \<and>
   ret (check_cross_realm_auth (host_with [(''xr:alice@R1'', ''1'')]) (direct_ticket ''alice'')
     http_request (Some enforcing_data) []) = KRB5KDC_ERR_POLICY \<and>
   status_out (check_cross_realm_auth (host_with [(''xr:alice@R1'', ''1'')])
     (direct_ticket ''alice'') http_request (Some enforcing_data) []) = Denial_msg \<and>
   denial_msg (check_cross_realm_auth (host_with [(''xr:alice@R1'', ''1'')])
     (direct_ticket ''alice'') http_request (Some enforcing_data) []) =
     ''xrealmauthz plugin denied from R1''"
proof -
  let ?h = "host_with [(''xr:alice@R1'', ''1'')]"
  have e: "enforcing_flag (Some enforcing_data)"
    by (simp add: enforcing_flag_def enforcing_data_def)
  have m: "NUL \<notin> set (realm (server (direct_ticket ''alice''))) \<and>
      length (realm (server (direct_ticket ''alice''))) \<le> 224"
    by (simp add: example_defs NUL_def)
  have r: "reaches_principal_scope ?h (Some enforcing_data) (direct_ticket ''alice'') (Some 7)"
    by (simp add: example_defs reach_defs plugin_defs)
  have a: "krb5_dbe_get_string ?h (Some 7) (spec_principal_scope_key (direct_ticket ''alice'')) =
      (0, None)"
    by (simp add: example_defs)
  show ?thesis
    using e m r a enforcing_denial_status [OF e r a, of http_request "[]"]
    by (simp add: example_defs NUL_def)
qed

text \<open>
  With a realm of 225 bytes on the ticket's server the message has 256 bytes, and the
  status is not the message: its last byte is cut. With the realm \<open>R\<close>, zero byte, \<open>X\<close>
  the status ends after \<open>R\<close>.
\<close>

theorem enforcing_denial_cut_counterexample:
  "enforcing_flag (Some enforcing_data) \<and>
   reaches_principal_scope (host_with []) (Some enforcing_data) long_realm_ticket (Some 7) \<and>
   krb5_dbe_get_string (host_with []) (Some 7) (spec_principal_scope_key long_realm_ticket) =
     (0, None) \<and>
   ret (check_cross_realm_auth (host_with []) long_realm_ticket http_request
     (Some enforcing_data) []) = KRB5KDC_ERR_POLICY \<and>
   length (''xrealmauthz plugin denied from '' @ realm (server long_realm_ticket)) = 256 \<and>
   status_text
     (denial_msg (check_cross_realm_auth (host_with []) long_realm_ticket http_request
        (Some enforcing_data) []))
     (status_out (check_cross_realm_auth (host_with []) long_realm_ticket http_request
        (Some enforcing_data) [])) \<noteq>
     Some (''xrealmauthz plugin denied from '' @ realm (server long_realm_ticket)) \<and>
   reaches_principal_scope (host_with []) (Some enforcing_data) nul_server_ticket (Some 7) \<and>
   krb5_dbe_get_string (host_with []) (Some 7) (spec_principal_scope_key nul_server_ticket) =
     (0, None) \<and>
   status_text
     (denial_msg (check_cross_realm_auth (host_with []) nul_server_ticket http_request
        (Some enforcing_data) []))
     (status_out (check_cross_realm_auth (host_with []) nul_server_ticket http_request
        (Some enforcing_data) [])) = Some ''xrealmauthz plugin denied from R'' \<and>
   ''xrealmauthz plugin denied from R'' \<noteq>
     take 255 (''xrealmauthz plugin denied from '' @ realm (server nul_server_ticket))"
proof -
  let ?m = "''xrealmauthz plugin denied from '' @ realm (server long_realm_ticket)"
  have e: "enforcing_flag (Some enforcing_data)"
    by (simp add: enforcing_flag_def enforcing_data_def)
  have r: "reaches_principal_scope (host_with []) (Some enforcing_data) long_realm_ticket
      (Some 7)"
    by (simp add: long_realm_ticket_def example_defs reach_defs plugin_defs)
  have a: "krb5_dbe_get_string (host_with []) (Some 7)
      (spec_principal_scope_key long_realm_ticket) = (0, None)"
    by (simp add: example_defs)
  have w: "takeWhile (\<lambda>c. c \<noteq> NUL) (realm (server long_realm_ticket)) =
      realm (server long_realm_ticket)"
    by (simp add: long_realm_ticket_def princ_def NUL_def)
  have l: "length (take 255 ?m) = 255"
    by (simp add: long_realm_ticket_def princ_def)
  have f: "length ?m = 256"
    by (simp add: long_realm_ticket_def princ_def)
  have d: "take 255 ?m \<noteq> ?m"
  proof
    assume "take 255 ?m = ?m"
    with l f show False
      by simp
  qed
  have q: "reaches_principal_scope (host_with []) (Some enforcing_data) nul_server_ticket
      (Some 7)"
    by (simp add: example_defs reach_defs plugin_defs)
  have b: "krb5_dbe_get_string (host_with []) (Some 7)
      (spec_principal_scope_key nul_server_ticket) = (0, None)"
    by (simp add: example_defs)
  have n: "takeWhile (\<lambda>c. c \<noteq> NUL) (realm (server nul_server_ticket)) = ''R''"
    by (simp add: nul_server_ticket_def princ_def NUL_def)
  have x: "''xrealmauthz plugin denied from R'' \<noteq>
      take 255 (''xrealmauthz plugin denied from '' @ realm (server nul_server_ticket))"
    by (simp add: nul_server_ticket_def princ_def)
  show ?thesis
    using e r a f d q b x
    by (simp add: enforcing_call [OF e r a] enforcing_call [OF e q b] w n cleanup_def
        status_text_def KRB5KDC_ERR_POLICY_def)
qed




subsection \<open>No module data\<close>



subsection \<open>The static buffer\<close>

lemma deny_branch_buf:
  "deny_branch h t rq e cps tgt buf tr =
     (deny_branch h t rq e cps tgt buf' tr)
       \<lparr>denial_msg :=
          if status_out (deny_branch h t rq e cps tgt buf' tr) = Denial_msg
          then denial_msg (deny_branch h t rq e cps tgt buf' tr) else buf\<rparr>"
  by (auto simp: deny_branch_def cleanup_def split: sum.splits option.splits)

lemma principal_scope_buf:
  "principal_scope h t rq e tgt buf tr =
     (principal_scope h t rq e tgt buf' tr)
       \<lparr>denial_msg :=
          if status_out (principal_scope h t rq e tgt buf' tr) = Denial_msg
          then denial_msg (principal_scope h t rq e tgt buf' tr) else buf\<rparr>"
  by (auto simp: principal_scope_def cleanup_def Let_def
      deny_branch_buf [of _ _ _ _ _ _ buf _ buf'] split: sum.splits prod.splits)

lemma check_cross_realm_auth_buf:
  "check_cross_realm_auth h t rq d buf =
     (check_cross_realm_auth h t rq d buf')
       \<lparr>denial_msg :=
          if status_out (check_cross_realm_auth h t rq d buf') = Denial_msg
          then denial_msg (check_cross_realm_auth h t rq d buf') else buf\<rparr>"
  by (auto simp: check_cross_realm_auth_def cleanup_def Let_def
      principal_scope_buf [of _ _ _ _ _ buf _ buf'] split: option.splits prod.splits)

lemma deny_branch_status_kinds:
  "status_out (deny_branch h t rq e cps tgt buf tr) = Null \<or>
   status_out (deny_branch h t rq e cps tgt buf tr) = Denial_msg"
  by (auto simp: deny_branch_def cleanup_def split: sum.splits option.splits)

lemma principal_scope_status_kinds:
  "status_out (principal_scope h t rq e tgt buf tr) = Null \<or>
   status_out (principal_scope h t rq e tgt buf tr) = Denial_msg"
  using deny_branch_status_kinds
  by (auto simp: principal_scope_def cleanup_def Let_def split: sum.splits prod.splits)

lemma status_kinds:
  "status_out (check_cross_realm_auth h t rq d buf) = Null \<or>
   status_out (check_cross_realm_auth h t rq d buf) =
     Literal ''xrealmauthz plugin failed to retrieve cross-realm TGT from database'' \<or>
   status_out (check_cross_realm_auth h t rq d buf) = Denial_msg"
proof -
  have "status_out (principal_scope h t rq e tgt buf tr) = Denial_msg"
    if "status_out (principal_scope h t rq e tgt buf tr) \<noteq> Null" for e tgt tr
    using that principal_scope_status_kinds [of h t rq e tgt buf tr] by blast
  then show ?thesis
    by (auto simp: check_cross_realm_auth_def cleanup_def Let_def
        split: option.splits prod.splits)
qed

text \<open>
  C8 (amended). The status of a call is NULL, the fixed text about the failed retrieval,
  or the one static buffer \<^verbatim>\<open>denial_msg\<close> of the module. The returned code, the status
  pointer and the calls made do not depend on what the buffer held before; a call whose
  status is the buffer has written its own message there whatever the buffer held, and a
  call with another status leaves the buffer as it was. So the text of a status lasts
  until the next call that writes a message.
\<close>

theorem status_in_static_buffer:
  "(status_out (check_cross_realm_auth h ticket request data buf) = Null \<or>
    status_out (check_cross_realm_auth h ticket request data buf) =
      Literal ''xrealmauthz plugin failed to retrieve cross-realm TGT from database'' \<or>
    status_out (check_cross_realm_auth h ticket request data buf) = Denial_msg) \<and>
   ret (check_cross_realm_auth h ticket request data buf) =
     ret (check_cross_realm_auth h ticket request data buf') \<and>
   status_out (check_cross_realm_auth h ticket request data buf) =
     status_out (check_cross_realm_auth h ticket request data buf') \<and>
   trace (check_cross_realm_auth h ticket request data buf) =
     trace (check_cross_realm_auth h ticket request data buf') \<and>
   (status_out (check_cross_realm_auth h ticket request data buf) = Denial_msg \<longrightarrow>
      denial_msg (check_cross_realm_auth h ticket request data buf) =
        denial_msg (check_cross_realm_auth h ticket request data buf')) \<and>
   (status_out (check_cross_realm_auth h ticket request data buf) \<noteq> Denial_msg \<longrightarrow>
      denial_msg (check_cross_realm_auth h ticket request data buf) = buf)"
proof -
  let ?o = "check_cross_realm_auth h ticket request data buf"
  let ?o' = "check_cross_realm_auth h ticket request data buf'"
  have e: "?o = ?o'\<lparr>denial_msg :=
      if status_out ?o' = Denial_msg then denial_msg ?o' else buf\<rparr>"
    by (rule check_cross_realm_auth_buf)
  have r: "ret ?o = ret ?o'" by (subst e) simp
  have s: "status_out ?o = status_out ?o'" by (subst e) simp
  have t: "trace ?o = trace ?o'" by (subst e) simp
  have d: "denial_msg ?o = (if status_out ?o' = Denial_msg then denial_msg ?o' else buf)"
    by (subst e) simp
  from r s t d status_kinds [of h ticket request data buf] show ?thesis
    by auto
qed

text \<open>
  Two calls one after the other, for the clients \<open>alice\<close> and \<open>bob\<close>: the status of the
  first call points at the static buffer, and after the second call the text it points at
  is the message of the second call.
\<close>

theorem status_overwritten_by_next_call_counterexample:
  "status_out first_call = Denial_msg \<and>
   status_text (denial_msg first_call) (status_out first_call) =
     Some ''xrealmauthz plugin would deny alice@R1 for HTTP/www@R2 from R1'' \<and>
   status_text (denial_msg second_call) (status_out first_call) =
     Some ''xrealmauthz plugin would deny bob@R1 for HTTP/www@R2 from R1''"
  by (simp add: first_call_def second_call_def example_defs plugin_defs status_text_def)


theorem status_in_static_buffer_witness:
  "status_out first_call = Denial_msg \<and>
   denial_msg first_call =
     denial_msg (check_cross_realm_auth (host_with []) (direct_ticket ''alice'') http_request
       (Some audit_data) ''old'') \<and>
   status_out (check_cross_realm_auth host_no_entry (direct_ticket ''alice'') http_request
     (Some audit_data) ''old'') \<noteq> Denial_msg \<and>
   denial_msg (check_cross_realm_auth host_no_entry (direct_ticket ''alice'') http_request
     (Some audit_data) ''old'') = ''old''"
proof -
  have a: "status_out (check_cross_realm_auth (host_with []) (direct_ticket ''alice'')
      http_request (Some audit_data) []) = Denial_msg"
    by (simp add: example_defs plugin_defs)
  have b: "status_out (check_cross_realm_auth host_no_entry (direct_ticket ''alice'')
      http_request (Some audit_data) ''old'') \<noteq> Denial_msg"
    by (simp add: example_defs plugin_defs)
  show ?thesis
    using a b
      status_in_static_buffer [of "host_with []" "direct_ticket ''alice''" http_request "Some audit_data" "[]"
        "''old''"]
      status_in_static_buffer [of host_no_entry "direct_ticket ''alice''" http_request "Some audit_data" "''old''"
        "[]"]
    by (simp add: first_call_def)
qed

subsection \<open>The length of the status\<close>

lemma build_principal_acl_str:
  "build_principal_acl h t = Inr (acl, Some s) \<Longrightarrow> krb5_unparse_name h (client t) = Inr s"
  by (auto simp: build_principal_acl_def split: if_splits sum.splits option.splits)

lemma deny_branch_message:
  assumes "status_out (deny_branch h t rq e cps tgt buf tr) = Denial_msg"
      and "\<And>s. cps = Some s \<Longrightarrow> krb5_unparse_name h (client t) = Inr s"
  shows "(e \<longrightarrow>
            ret (deny_branch h t rq e cps tgt buf tr) = KRB5KDC_ERR_POLICY \<and>
            denial_msg (deny_branch h t rq e cps tgt buf tr) =
              take 255 (enforcing_msg (server t))) \<and>
         (\<not> e \<longrightarrow>
            ret (deny_branch h t rq e cps tgt buf tr) = 0 \<and>
            (\<exists>c s. krb5_unparse_name h (client t) = Inr c \<and>
               krb5_unparse_name h (req_server rq) = Inr s \<and>
               denial_msg (deny_branch h t rq e cps tgt buf tr) =
                 take 255 (audit_msg c s (server t))))"
  using assms
  by (auto simp: deny_branch_def cleanup_def snprintf_def MAX_DENIAL_MSG_LEN_def
      split: sum.splits option.splits if_splits)

lemma principal_scope_message:
  assumes "status_out (principal_scope h t rq e tgt buf tr) = Denial_msg"
  shows "(e \<longrightarrow>
            ret (principal_scope h t rq e tgt buf tr) = KRB5KDC_ERR_POLICY \<and>
            denial_msg (principal_scope h t rq e tgt buf tr) =
              take 255 (enforcing_msg (server t))) \<and>
         (\<not> e \<longrightarrow>
            ret (principal_scope h t rq e tgt buf tr) = 0 \<and>
            (\<exists>c s. krb5_unparse_name h (client t) = Inr c \<and>
               krb5_unparse_name h (req_server rq) = Inr s \<and>
               denial_msg (principal_scope h t rq e tgt buf tr) =
                 take 255 (audit_msg c s (server t))))"
proof (cases "build_principal_acl h t")
  case (Inl r)
  with assms show ?thesis
    by (simp add: principal_scope_def cleanup_def Let_def)
next
  case (Inr p)
  obtain acl cps where p: "p = (acl, cps)"
    by (cases p)
  obtain r al where c: "check_cross_realm_tgt_attribute h acl tgt = (r, al)"
    by force
  show ?thesis
  proof (cases "r \<noteq> 0 \<or> al")
    case True
    with assms Inr p c show ?thesis
      by (auto simp: principal_scope_def cleanup_def Let_def)
  next
    case False
    with Inr p c have o: "principal_scope h t rq e tgt buf tr =
        deny_branch h t rq e cps tgt buf
          (tr @ [Unparse_name (client t) (krb5_realm_compare (server t) (client t)),
                 Dbe_get_string tgt acl])"
      by (simp add: principal_scope_def Let_def)
    show ?thesis
      using assms build_principal_acl_str [of h t acl] Inr p
      unfolding o by (intro deny_branch_message) auto
  qed
qed

text \<open>
  C7 (amended). Every status text is shorter than the 256 bytes of the buffer, so it
  fits with its terminator. A status in the buffer is the first 255 bytes of the
  formatted message, whatever its length and whatever bytes stand at the cut, and the
  returned code is the one of the branch (the policy error when enforcing is on, 0 when
  it is off): no error is raised for a message that is cut.
\<close>

theorem status_truncated_to_buffer:
  "(\<forall>s. status_text (denial_msg (check_cross_realm_auth h ticket request data buf))
          (status_out (check_cross_realm_auth h ticket request data buf)) = Some s \<longrightarrow>
        length s < MAX_DENIAL_MSG_LEN) \<and>
   (status_out (check_cross_realm_auth h ticket request data buf) = Denial_msg \<longrightarrow>
      (enforcing_flag data \<longrightarrow>
         ret (check_cross_realm_auth h ticket request data buf) = KRB5KDC_ERR_POLICY \<and>
         denial_msg (check_cross_realm_auth h ticket request data buf) =
           take 255 (enforcing_msg (server ticket))) \<and>
      (\<not> enforcing_flag data \<longrightarrow>
         ret (check_cross_realm_auth h ticket request data buf) = 0 \<and>
         (\<exists>c s. krb5_unparse_name h (client ticket) = Inr c \<and>
            krb5_unparse_name h (req_server request) = Inr s \<and>
            denial_msg (check_cross_realm_auth h ticket request data buf) =
              take 255 (audit_msg c s (server ticket)))))"
proof -
  let ?o = "check_cross_realm_auth h ticket request data buf"
  have m: "(enforcing_flag data \<longrightarrow>
         ret ?o = KRB5KDC_ERR_POLICY \<and> denial_msg ?o = take 255 (enforcing_msg (server ticket))) \<and>
      (\<not> enforcing_flag data \<longrightarrow>
         ret ?o = 0 \<and>
         (\<exists>c s. krb5_unparse_name h (client ticket) = Inr c \<and>
            krb5_unparse_name h (req_server request) = Inr s \<and>
            denial_msg ?o = take 255 (audit_msg c s (server ticket))))"
    if d: "status_out ?o = Denial_msg"
  proof -
    from d obtain tgt tr where "?o = principal_scope h ticket request (enforcing_flag data)
        tgt buf tr"
      by (auto simp: check_cross_realm_auth_def cleanup_def Let_def
          split: option.splits prod.splits if_splits)
    with d show ?thesis
      using principal_scope_message [of h ticket request "enforcing_flag data" tgt buf tr]
      by simp
  qed
  have "length s < MAX_DENIAL_MSG_LEN"
    if "status_text (denial_msg ?o) (status_out ?o) = Some s" for s
    using that m status_kinds [of h ticket request data buf]
    by (cases "enforcing_flag data")
       (auto simp: status_text_def MAX_DENIAL_MSG_LEN_def split: status.splits)
  with m show ?thesis
    by blast
qed


lemma utf8_wf_ascii_run: "utf8_wf (replicate n CHR ''a'' @ xs) = utf8_wf xs"
  by (induction n) simp_all

lemma utf8_call:
  "ret (check_cross_realm_auth (host_with []) (direct_ticket utf8_name) http_request
     (Some audit_data) buf) = 0 \<and>
   status_out (check_cross_realm_auth (host_with []) (direct_ticket utf8_name) http_request
     (Some audit_data) buf) = Denial_msg \<and>
   denial_msg (check_cross_realm_auth (host_with []) (direct_ticket utf8_name) http_request
     (Some audit_data) buf) =
     take 255 (spec_audit_status (direct_ticket utf8_name) http_request)"
proof -
  let ?t = "direct_ticket utf8_name"
  have e: "\<not> enforcing_flag (Some audit_data)"
    by (simp add: enforcing_flag_def audit_data_def)
  have n: "NUL \<notin> set (realm (client ?t))"
    by (simp add: example_defs NUL_def)
  have m: "NUL \<notin> set (realm (server ?t))"
    by (simp add: example_defs NUL_def)
  have r: "reaches_principal_check (host_with []) (Some audit_data) ?t (Some 7)"
    by (simp add: example_defs plugin_defs)
  have a: "krb5_dbe_get_string (host_with []) (Some 7) (spec_principal_scope_key ?t) = (0, None)"
    by (simp add: host_with_def)
  have u: "unparse_ret (host_with []) (client ?t) False = 0"
    by (simp add: host_with_def)
  have v: "unparse_ret (host_with []) (req_server http_request) False = 0"
    by (simp add: host_with_def)
  show ?thesis
    using e
    by (simp add: no_attribute_outcome [OF n r a] deny_branch_audit [OF u v]
        audit_msg_spec [OF m] snprintf_def MAX_DENIAL_MSG_LEN_def cleanup_def)
qed

lemma utf8_message:
  "spec_audit_status (direct_ticket utf8_name) http_request =
     ''xrealmauthz plugin would deny '' @ replicate 224 CHR ''a'' @
     [CHR 0xC3, CHR 0xA9] @ ''@R1 for HTTP/www@R2 from R1''"
  by (simp add: spec_audit_status_def example_defs utf8_name_def)

text \<open>
  A client name that ends in the two bytes \<open>C3 A9\<close> at bytes 255 and 256 of the audit
  message: the message is well-formed UTF-8 and longer than the buffer, no error is
  raised, and the status ends in the lead byte \<open>C3\<close> alone.
\<close>

theorem status_cut_inside_utf8_counterexample:
  "utf8_wf (spec_audit_status (direct_ticket utf8_name) http_request) \<and>
   MAX_DENIAL_MSG_LEN \<le> length (spec_audit_status (direct_ticket utf8_name) http_request) \<and>
   ret (check_cross_realm_auth (host_with []) (direct_ticket utf8_name) http_request
     (Some audit_data) []) = 0 \<and>
   status_text
     (denial_msg (check_cross_realm_auth (host_with []) (direct_ticket utf8_name) http_request
        (Some audit_data) []))
     (status_out (check_cross_realm_auth (host_with []) (direct_ticket utf8_name) http_request
        (Some audit_data) [])) =
     Some (take 255 (spec_audit_status (direct_ticket utf8_name) http_request)) \<and>
   \<not> utf8_wf
     (denial_msg (check_cross_realm_auth (host_with []) (direct_ticket utf8_name) http_request
        (Some audit_data) []))"
proof -
  have w: "utf8_wf (spec_audit_status (direct_ticket utf8_name) http_request)"
    by (simp add: utf8_message utf8_wf_ascii_run continuation_def)
  have l: "MAX_DENIAL_MSG_LEN \<le> length (spec_audit_status (direct_ticket utf8_name) http_request)"
    by (simp add: utf8_message MAX_DENIAL_MSG_LEN_def)
  have c: "take 255 (spec_audit_status (direct_ticket utf8_name) http_request) =
      ''xrealmauthz plugin would deny '' @ replicate 224 CHR ''a'' @ [CHR 0xC3]"
    by (simp add: utf8_message)
  have "\<not> utf8_wf (take 255 (spec_audit_status (direct_ticket utf8_name) http_request))"
    unfolding c by (simp add: utf8_wf_ascii_run)
  with w l show ?thesis
    by (simp add: utf8_call status_text_def)
qed

theorem status_truncated_witness:
  "status_out (check_cross_realm_auth (host_with []) (direct_ticket utf8_name) http_request
     (Some audit_data) []) = Denial_msg \<and>
   \<not> enforcing_flag (Some audit_data) \<and>
   status_text
     (denial_msg (check_cross_realm_auth (host_with []) (direct_ticket utf8_name) http_request
        (Some audit_data) []))
     (status_out (check_cross_realm_auth (host_with []) (direct_ticket utf8_name) http_request
        (Some audit_data) [])) =
     Some (take 255 (spec_audit_status (direct_ticket utf8_name) http_request)) \<and>
   length (take 255 (spec_audit_status (direct_ticket utf8_name) http_request)) <
     MAX_DENIAL_MSG_LEN \<and>
   ret (check_cross_realm_auth (host_with []) (direct_ticket utf8_name) http_request
     (Some audit_data) []) = 0"
proof -
  have e: "\<not> enforcing_flag (Some audit_data)"
    by (simp add: enforcing_flag_def audit_data_def)
  have t: "status_text
     (denial_msg (check_cross_realm_auth (host_with []) (direct_ticket utf8_name) http_request
        (Some audit_data) []))
     (status_out (check_cross_realm_auth (host_with []) (direct_ticket utf8_name) http_request
        (Some audit_data) [])) =
     Some (take 255 (spec_audit_status (direct_ticket utf8_name) http_request))"
    by (simp add: utf8_call status_text_def)
  show ?thesis
    using e t utf8_call [of "[]"]
      status_truncated_to_buffer [of "host_with []" "direct_ticket utf8_name" http_request
        "Some audit_data" "[]"]
    by (simp add: MAX_DENIAL_MSG_LEN_def)
qed

end
